theory Spec2Isabelle
  imports Main "HOL-Library.Multiset"
begin

section \<open>JavaScript values used by the components\<close>

text \<open>
  Documents (the \<open>xml\<close> prop, \<open>lastSchema\<close>, \<open>lastXML\<close>) and the two fields of an
  engine profile are JavaScript strings that may also be \<open>undefined\<close> or \<open>null\<close>.
  Strict equality \<open>===\<close> on such values is equality of the datatype: \<open>undefined\<close> and
  \<open>null\<close> differ from each other and from every string, strings compare by contents.
\<close>

datatype js_str = Undefined | Null | Str string

text \<open>Truthiness as used by \<open>||\<close>, \<open>!\<close> and \<open>if\<close>: only a non-empty string is truthy.\<close>

fun truthy :: "js_str \<Rightarrow> bool" where
  "truthy Undefined = False"
| "truthy Null = False"
| "truthy (Str s) = (s \<noteq> [])"

text \<open>The expression \<open>a || b\<close>.\<close>

definition js_or :: "js_str \<Rightarrow> js_str \<Rightarrow> js_str" where
  "js_or a b = (if truthy a then a else b)"

section \<open>Engine profile selector (EngineProfile.js)\<close>

record engineProfile =
  executionPlatform :: js_str
  executionPlatformVersion :: js_str

text \<open>
  \<open>engineProfilesEqual(a, b)\<close>. An argument that is \<open>null\<close> or \<open>undefined\<close> (\<open>isNil\<close>) is
  \<open>None\<close>.
\<close>

definition engineProfilesEqual :: "engineProfile option \<Rightarrow> engineProfile option \<Rightarrow> bool" where
  "engineProfilesEqual a b =
     (case a of
        None \<Rightarrow> False
      | Some x \<Rightarrow>
          (case b of
             None \<Rightarrow> False
           | Some y \<Rightarrow>
               executionPlatform x = executionPlatform y
               \<and> executionPlatformVersion x = executionPlatformVersion y))"

text \<open>
  The component \<open>EngineProfileSelection\<close>: its prop \<open>engineProfile\<close> (the profile set
  before, field \<open>engineProfile_prop\<close>), its two hook states
  and the calls it has made to the callbacks it was given (\<open>props.setEngineProfile\<close>,
  \<open>onClose\<close>), oldest first. The hook state \<open>error\<close> (field \<open>selection_error\<close>) is \<open>null\<close> or \<open>true\<close> in the source
  and only tested for truthiness, so it is a \<open>bool\<close> here.
\<close>

datatype selection_call = SetEngineProfile engineProfile | OnClose

record EngineProfileSelection =
  engineProfile_prop :: "engineProfile option"
  selectedEngineProfile :: "engineProfile option"
  selection_error :: bool
  calls :: "selection_call list"

text \<open>\<open>useState(engineProfile)\<close>, \<open>useState(null)\<close>.\<close>

definition initSelection :: "engineProfile option \<Rightarrow> EngineProfileSelection" where
  "initSelection p =
     \<lparr>engineProfile_prop = p, selectedEngineProfile = p, selection_error = False, calls = []\<rparr>"

definition onSelectEngineProfile ::
  "js_str \<Rightarrow> js_str \<Rightarrow> EngineProfileSelection \<Rightarrow> EngineProfileSelection" where
  "onSelectEngineProfile newExecutionPlatform newExecutionPlatformVersion st =
     (let newEngineProfile =
            \<lparr>executionPlatform = newExecutionPlatform,
             executionPlatformVersion = newExecutionPlatformVersion\<rparr>
      in if engineProfilesEqual (selectedEngineProfile st) (Some newEngineProfile)
         then st\<lparr>selectedEngineProfile := None\<rparr>
         else st\<lparr>selectedEngineProfile := Some newEngineProfile, selection_error := False\<rparr>)"

text \<open>The handler of the Apply button.\<close>

definition setEngineProfile :: "EngineProfileSelection \<Rightarrow> EngineProfileSelection" where
  "setEngineProfile st =
     (case selectedEngineProfile st of
        None \<Rightarrow> st\<lparr>selection_error := True\<rparr>
      | Some sel \<Rightarrow>
          if engineProfilesEqual (Some sel) (engineProfile_prop st) then st
          else st\<lparr>calls := calls st @ [SetEngineProfile sel, OnClose]\<rparr>)"

section \<open>Form editor wrapper (FormEditor.js)\<close>

subsection \<open>The form engine, seen from the wrapper\<close>

text \<open>
  The form engine (\<open>./editor/FormEditor\<close>) is outside this code. The wrapper reads from it
  the position of the command stack (\<open>form.get('commandStack')._stackIdx\<close>), whether undo
  and redo are possible, and the schema (\<open>form.getSchema()\<close>, \<open>form.saveSchema()\<close>). A
  value of \<open>Form\<close> is what these reads return at one moment. A schema carries the two
  fields of an engine profile (each possibly \<open>undefined\<close>) and the rest of the document.
\<close>

record form_schema = engineProfile +
  components :: string

record commandStack =
  cs_stackIdx :: int
  canUndo :: bool
  canRedo :: bool

record Form =
  commandStack :: commandStack
  getSchema :: form_schema
  saveSchema :: form_schema

text \<open>
  A thrown or reported error: an object with a message and possibly a \<open>warnings\<close> array
  (field \<open>error_warnings\<close>, \<open>None\<close> when the property is absent). Warnings are represented by their text.
\<close>

record js_error =
  message :: string
  error_warnings :: "string list option"

text \<open>
  What \<open>await form.importSchema(schemaJSON)\<close> yields: the promise resolves to an object
  from which \<open>error\<close> and \<open>warnings\<close> are read (\<open>None\<close> when absent), or it rejects.
\<close>

datatype import_result =
    Resolved "js_error option" "string list option"
  | Rejected js_error

subsection \<open>State of the component\<close>

text \<open>
  Modelled from the spec: \<open>getCached\<close> and \<open>setCached\<close> of \<open>CachedComponent\<close> (in
  \<open>cached\<close>, not part of the sources) read and write the spec's \<open>CachedEditorState\<close>, a
  cache owned by the component. \<open>setCached\<close> is taken to replace exactly the fields it is
  given and to keep the others (a record update), \<open>getCached\<close> to return the cache as the
  last \<open>setCached\<close> left it. The same holds for the cache of the multi-sheet tab below.
\<close>

text \<open>The cached state of the form editor, as \<open>createCachedState\<close> makes it.\<close>

record cached_state =
  engineProfile :: "engineProfile option"
  form :: Form
  lastSchema :: js_str
  stackIdx :: int

record props =
  xml :: js_str

text \<open>The state object reported by \<open>handleChanged\<close>.\<close>

record editor_state =
  defaultUndoRedo :: bool
  dirty :: bool
  inputActive :: bool
  redo :: bool
  save :: bool
  undo :: bool

text \<open>
  What the component did, oldest first: each entry into \<open>importSchema\<close>, each
  serialisation of the form (\<open>JSON.stringify(form.saveSchema(), null, 2)\<close>), each call of
  \<open>modeling.editFormField\<close> and each call of the host's callbacks \<open>onImport\<close> (with its
  single argument) and \<open>onChanged\<close> (the edit menu it also passes is computed from the
  reported state by \<open>getFormEditMenu\<close>, which is outside this code, and is left out).
\<close>

datatype fe_event =
    ImportSchemaCalled
  | SaveSchemaCalled
  | EditFormField engineProfile
  | OnImport "js_error option"
  | OnChanged editor_state

text \<open>
  \<open>this.state\<close> is \<open>importing\<close> together with the fields merged in by \<open>handleChanged\<close>
  (\<open>changed\<close>, absent before the first report); \<open>isMounted\<close> is \<open>this._isMounted\<close>.
  A \<open>setState\<close> is taken to be in effect when the method that calls it has returned or
  is suspended, which is when the other methods can next read \<open>this.state\<close>.
\<close>

record FormEditor =
  importing :: bool
  changed :: "editor_state option"
  isMounted :: bool
  props :: props
  cached :: cached_state
  events :: "fe_event list"

text \<open>\<open>createCachedState\<close>, for a freshly made form \<open>f\<close>.\<close>

definition createCachedState :: "Form \<Rightarrow> cached_state" where
  "createCachedState f =
     \<lparr>engineProfile = None, form = f, lastSchema = Null,
      stackIdx = cs_stackIdx (commandStack f)\<rparr>"

text \<open>The constructor: \<open>this.state = { importing: false }\<close>, not yet mounted.\<close>

definition newFormEditor :: "props \<Rightarrow> cached_state \<Rightarrow> FormEditor" where
  "newFormEditor p c =
     \<lparr>importing = False, changed = None, isMounted = False, props = p, cached = c,
      events = []\<rparr>"

subsection \<open>Dirty tracking\<close>

definition isDirty :: "FormEditor \<Rightarrow> bool" where
  "isDirty st = (cs_stackIdx (commandStack (form (cached st))) \<noteq> stackIdx (cached st))"

text \<open>
  \<open>handleChanged\<close>; \<open>isInputActive()\<close> queries the DOM and is a parameter, as is whether
  the host passed an \<open>onChanged\<close> function.
\<close>

definition handleChanged :: "bool \<Rightarrow> bool \<Rightarrow> FormEditor \<Rightarrow> FormEditor" where
  "handleChanged onChangedIsFunction isInputActive st =
     (let cs = commandStack (form (cached st));
          newState = \<lparr>defaultUndoRedo = isInputActive, dirty = isDirty st,
                      inputActive = isInputActive, redo = canRedo cs, save = True,
                      undo = canUndo cs\<rparr>;
          st1 = (if onChangedIsFunction
                 then st\<lparr>events := events st @ [OnChanged newState]\<rparr> else st)
      in st1\<lparr>changed := Some newState\<rparr>)"

subsection \<open>Import\<close>

text \<open>
  \<open>isImportNeeded(prevProps = {})\<close>: \<open>None\<close> is the call without argument (from
  \<open>componentDidMount\<close>), where \<open>prevProps.xml\<close> is \<open>undefined\<close>.
\<close>

definition isImportNeeded :: "props option \<Rightarrow> FormEditor \<Rightarrow> bool" where
  "isImportNeeded prevProps st =
     (if importing st then False
      else
        let schema = xml (props st);
            prevSchema = (case prevProps of None \<Rightarrow> Undefined | Some pp \<Rightarrow> xml pp)
        in if schema = prevSchema then False
           else schema \<noteq> lastSchema (cached st))"

text \<open>\<open>handleImport(error, warnings)\<close>. The two \<open>console.log\<close> calls are left out.\<close>

definition handleImport ::
  "js_error option \<Rightarrow> string list option \<Rightarrow> FormEditor \<Rightarrow> FormEditor" where
  "handleImport error warnings st =
     (let f = form (cached st);
          stackIdx' = cs_stackIdx (commandStack f);
          schema = xml (props st);
          st1 =
            (case error of
               Some e \<Rightarrow>
                 st\<lparr>cached := (cached st)\<lparr>engineProfile := None, lastSchema := Null\<rparr>\<rparr>
             | None \<Rightarrow>
                 (let sch = getSchema f;
                      engineProfile' =
                        (if executionPlatform sch \<noteq> Undefined
                         then Some \<lparr>executionPlatform = executionPlatform sch,
                                     executionPlatformVersion = executionPlatformVersion sch\<rparr>
                         else None)
                  in st\<lparr>cached := (cached st)\<lparr>engineProfile := engineProfile',
                                                lastSchema := schema,
                                                stackIdx := stackIdx'\<rparr>\<rparr>));
          st2 = st1\<lparr>importing := False\<rparr>
      in st2\<lparr>events := events st2 @ [OnImport error]\<rparr>)"

text \<open>
  \<open>importSchema\<close> is an \<open>async\<close> function. It runs to its \<open>await\<close>, is suspended while
  the engine imports, and is resumed with the outcome; what happened to the component in
  between is in the state it is resumed in. When \<open>JSON.parse\<close> throws there is no
  suspension. \<open>JSON.parse\<close> is a parameter: it throws (\<open>Inl\<close>) or returns the parsed
  document.
\<close>

datatype 'j suspended = Settled FormEditor | AwaitImport 'j FormEditor

text \<open>The component as it is when the function is suspended or has ended.\<close>

definition suspended_state :: "'j suspended \<Rightarrow> FormEditor" where
  "suspended_state s = (case s of Settled st \<Rightarrow> st | AwaitImport schemaJSON st \<Rightarrow> st)"

text \<open>The end of \<open>importSchema\<close>: the mount-flag check before the result is applied.\<close>

definition importSchema_finish ::
  "js_error option \<Rightarrow> string list option \<Rightarrow> FormEditor \<Rightarrow> FormEditor" where
  "importSchema_finish error warnings st =
     (if isMounted st then handleImport error warnings st else st)"

text \<open>
  The \<open>catch\<close> block: \<open>error = err\<close>, and \<open>warnings = err.warnings\<close> if the error has
  that property (an array is truthy), else \<open>warnings\<close> stays \<open>null\<close>.
\<close>

definition importSchema_catch :: "js_error \<Rightarrow> FormEditor \<Rightarrow> FormEditor" where
  "importSchema_catch err st = importSchema_finish (Some err) (error_warnings err) st"

definition importSchema_start ::
  "(js_str \<Rightarrow> js_error + 'j) \<Rightarrow> FormEditor \<Rightarrow> 'j suspended" where
  "importSchema_start JSON_parse st =
     (let st1 = st\<lparr>importing := True, events := events st @ [ImportSchemaCalled]\<rparr>;
          schema = xml (props st1)
      in case JSON_parse schema of
           Inl err \<Rightarrow> Settled (importSchema_catch err st1)
         | Inr schemaJSON \<Rightarrow> AwaitImport schemaJSON st1)"

definition importSchema_resume :: "import_result \<Rightarrow> FormEditor \<Rightarrow> FormEditor" where
  "importSchema_resume r st =
     (case r of
        Resolved error warnings \<Rightarrow> importSchema_finish error warnings st
      | Rejected err \<Rightarrow> importSchema_catch err st)"

text \<open>
  The engine finishes the import of \<open>schemaJSON\<close> and the function is resumed, in the state
  \<open>st\<close> the component has by then: what happened to the component while the import was
  in flight (new props, an unmount) is part of \<open>st\<close>.
\<close>

definition resume_import ::
  "('j \<Rightarrow> Form \<Rightarrow> import_result \<times> Form) \<Rightarrow> 'j \<Rightarrow> FormEditor \<Rightarrow> FormEditor" where
  "resume_import form_importSchema schemaJSON st =
     (case form_importSchema schemaJSON (form (cached st)) of
        (r, f') \<Rightarrow> importSchema_resume r (st\<lparr>cached := (cached st)\<lparr>form := f'\<rparr>\<rparr>))"

text \<open>
  An import during which nothing else happens to the component: the engine's
  \<open>importSchema\<close> (a parameter) turns the form \<open>f\<close> into \<open>f'\<close> and yields its outcome.
\<close>

definition run_import ::
  "('j \<Rightarrow> Form \<Rightarrow> import_result \<times> Form) \<Rightarrow> 'j suspended \<Rightarrow> FormEditor" where
  "run_import form_importSchema s =
     (case s of
        Settled st \<Rightarrow> st
      | AwaitImport schemaJSON st \<Rightarrow>
          (case form_importSchema schemaJSON (form (cached st)) of
             (r, f') \<Rightarrow>
               importSchema_resume r (st\<lparr>cached := (cached st)\<lparr>form := f'\<rparr>\<rparr>)))"

definition importSchema ::
  "(js_str \<Rightarrow> js_error + 'j) \<Rightarrow> ('j \<Rightarrow> Form \<Rightarrow> import_result \<times> Form) \<Rightarrow>
   FormEditor \<Rightarrow> FormEditor" where
  "importSchema JSON_parse form_importSchema st =
     run_import form_importSchema (importSchema_start JSON_parse st)"

text \<open>\<open>checkImport\<close> returns when \<open>importSchema\<close>, which it does not await, is suspended.\<close>

definition checkImport ::
  "(js_str \<Rightarrow> js_error + 'j) \<Rightarrow> props option \<Rightarrow> FormEditor \<Rightarrow> 'j suspended" where
  "checkImport JSON_parse prevProps st =
     (if \<not> isImportNeeded prevProps st then Settled st
      else importSchema_start JSON_parse st)"

text \<open>
  The lifecycle methods. Attaching the form to the DOM and registering the listeners have
  no effect on the state modelled here. A props update is the new props arriving followed
  by \<open>componentDidUpdate(prevProps)\<close>.
\<close>

definition componentDidMount ::
  "(js_str \<Rightarrow> js_error + 'j) \<Rightarrow> FormEditor \<Rightarrow> 'j suspended" where
  "componentDidMount JSON_parse st = checkImport JSON_parse None (st\<lparr>isMounted := True\<rparr>)"

definition componentWillUnmount :: "FormEditor \<Rightarrow> FormEditor" where
  "componentWillUnmount st = st\<lparr>isMounted := False\<rparr>"

definition componentDidUpdate ::
  "(js_str \<Rightarrow> js_error + 'j) \<Rightarrow> props \<Rightarrow> FormEditor \<Rightarrow> 'j suspended" where
  "componentDidUpdate JSON_parse prevProps st = checkImport JSON_parse (Some prevProps) st"

definition updateProps ::
  "(js_str \<Rightarrow> js_error + 'j) \<Rightarrow> props \<Rightarrow> FormEditor \<Rightarrow> 'j suspended" where
  "updateProps JSON_parse newProps st =
     componentDidUpdate JSON_parse (props st) (st\<lparr>props := newProps\<rparr>)"

subsection \<open>Export\<close>

text \<open>
  \<open>getXML\<close> returns the document and the state it leaves. \<open>JSON.stringify\<close> (with the
  indentation 2) is a parameter; it yields a string, or \<open>undefined\<close>.
\<close>

definition getXML :: "(form_schema \<Rightarrow> js_str) \<Rightarrow> FormEditor \<Rightarrow> js_str \<times> FormEditor" where
  "getXML JSON_stringify st =
     (let f = form (cached st);
          lastSchema' = lastSchema (cached st);
          stackIdx' = cs_stackIdx (commandStack f)
      in if \<not> isDirty st then (js_or lastSchema' (xml (props st)), st)
         else
           (let schema = JSON_stringify (saveSchema f);
                st1 = st\<lparr>events := events st @ [SaveSchemaCalled]\<rparr>
            in (schema,
                st1\<lparr>cached := (cached st1)\<lparr>lastSchema := schema, stackIdx := stackIdx'\<rparr>\<rparr>)))"

text \<open>
  The wrapper's own \<open>setEngineProfile\<close>, the callback given to the selector:
  \<open>modeling.editFormField(root, engineProfile)\<close>, whose effect on the form is the
  parameter \<open>editFormField\<close>, then \<open>setCached({ engineProfile })\<close>.
\<close>

definition fe_setEngineProfile ::
  "(engineProfile \<Rightarrow> Form \<Rightarrow> Form) \<Rightarrow> engineProfile \<Rightarrow> FormEditor \<Rightarrow> FormEditor" where
  "fe_setEngineProfile editFormField ep st =
     (let st1 = st\<lparr>cached := (cached st)\<lparr>form := editFormField ep (form (cached st))\<rparr>,
                    events := events st @ [EditFormField ep]\<rparr>
      in st1\<lparr>cached := (cached st1)\<lparr>engineProfile := Some ep\<rparr>\<rparr>)"

section \<open>Multi-sheet tab (MultiSheetTab.js)\<close>

subsection \<open>Sheets and providers\<close>

text \<open>
  A provider is an object of the \<open>providers\<close> prop; the tab reads its \<open>type\<close>, its
  \<open>defaultName\<close> and \<open>isFallback\<close> (and renders its \<open>editor\<close>). A sheet is an object
  with an \<open>id\<close>, a \<open>name\<close>, its \<open>provider\<close>, a \<open>type\<close> and possibly an \<open>order\<close>
  (\<open>None\<close> when the property is absent) and the mark \<open>isDefault\<close>.

  The source compares providers and sheets with \<open>===\<close> and \<open>!==\<close>, by reference. The
  tab never changes such an object in place (it builds new ones with the spread
  operator), so an object is identified here with its contents: two objects are the
  same when all their fields are. Orders are taken to be integers.
\<close>

record provider =
  provider_type :: string
  defaultName :: string
  isFallback :: bool

record sheet =
  sheet_id :: string
  name :: string
  provider :: provider
  sheet_type :: string
  order :: "int option"
  isDefault :: bool

record tab_cached =
  sheets :: "sheet list option"
  activeSheet :: "sheet option"
  lastXML :: js_str

record tab_props = props +
  providers :: "provider list"

text \<open>
  Calls of the tab to the editor it renders and to the callbacks of its host, oldest
  first. A dialog is represented by the error it shows, a notification by the number of
  warnings in its title.
\<close>

datatype tab_call =
    EditorGetXML
  | EmitActiveSheetChanged sheet
  | ShowImportErrorDialog js_error
  | OpenExternalUrl string
  | DisplayNotification nat
  | TabOnError js_error
  | TabOnWarning string
  | TabOnChanged editor_state

datatype tab_error = TypeError | EditorRejected js_error

text \<open>The tab, for an editor whose state has type \<open>'e\<close>; \<open>editorRef\<close> is \<open>this.editorRef.current\<close>.\<close>

record 'e MultiSheetTab =
  tab_props :: tab_props
  tab_cached :: tab_cached
  editorRef :: "'e option"
  tab_calls :: "tab_call list"

definition getDefaultSheets :: "provider list \<Rightarrow> sheet list" where
  "getDefaultSheets ps =
     map (\<lambda>p. \<lparr>sheet_id = provider_type p, name = defaultName p, provider = p,
               sheet_type = provider_type p, order = None, isDefault = True\<rparr>) ps"

text \<open>\<open>xs[0]\<close>, which is \<open>undefined\<close> on an empty array.\<close>

definition first_elem :: "'a list \<Rightarrow> 'a option" where
  "first_elem xs = (case xs of [] \<Rightarrow> None | x # _ \<Rightarrow> Some x)"

text \<open>The constructor fills an empty cache with the default sheets.\<close>

definition newMultiSheetTab :: "tab_props \<Rightarrow> tab_cached \<Rightarrow> 'e MultiSheetTab" where
  "newMultiSheetTab p c =
     (let c' = (case sheets c of
                  Some ss \<Rightarrow> c
                | None \<Rightarrow>
                    (let ss = getDefaultSheets (providers p)
                     in c\<lparr>sheets := Some ss, activeSheet := first_elem ss\<rparr>))
      in \<lparr>tab_props = p, tab_cached = c', editorRef = None, tab_calls = []\<rparr>)"

subsection \<open>Sheet reconciliation\<close>

text \<open>\<open>t.order || 0\<close>: an absent order and the order 0 both give 0.\<close>

definition orderOrZero :: "sheet \<Rightarrow> int" where
  "orderOrZero t = (case order t of None \<Rightarrow> 0 | Some n \<Rightarrow> n)"

text \<open>\<open>{ ...t, order: t.order || 0 }\<close>\<close>

definition withOrder :: "sheet \<Rightarrow> sheet" where
  "withOrder t = t\<lparr>order := Some (orderOrZero t)\<rparr>"

text \<open>\<open>{ ...newSheet, provider }\<close>\<close>

definition wire :: "provider \<Rightarrow> sheet \<Rightarrow> sheet" where
  "wire p newSheet = newSheet\<lparr>provider := p\<rparr>"

text \<open>
  \<open>.sort((a, b) => a.order - b.order)\<close>. \<open>Array.prototype.sort\<close> is stable and the
  comparator orders numbers ascending, so the outcome is the stable sort by the order;
  \<open>sort_key\<close> is the stable insertion sort. Every sheet that reaches the sort has been
  through \<open>withOrder\<close>, so its order is present and \<open>orderOrZero\<close> reads it.
\<close>

definition sortByOrder :: "sheet list \<Rightarrow> sheet list" where
  "sortByOrder ss = sort_key orderOrZero ss"

text \<open>\<open>if (!sheets) { sheets = []; }\<close> on the cached sheet list.\<close>

definition sheetsOrEmpty :: "tab_cached \<Rightarrow> sheet list" where
  "sheetsOrEmpty c = (case sheets c of None \<Rightarrow> [] | Some ss \<Rightarrow> ss)"

text \<open>
  \<open>sheetsChanged(newSheets, newActiveSheet)\<close>; \<open>newActiveSheet\<close> is \<open>None\<close> when the
  argument is not supplied. Reading \<open>activeSheet.provider\<close> throws when the cache holds no
  active sheet.
\<close>

definition sheetsChanged ::
  "sheet list \<Rightarrow> sheet option \<Rightarrow> 'e MultiSheetTab \<Rightarrow> tab_error + 'e MultiSheetTab" where
  "sheetsChanged newSheets newActiveSheet st =
     (let sheets0 = sheetsOrEmpty (tab_cached st)
      in case activeSheet (tab_cached st) of
           None \<Rightarrow> Inl TypeError
         | Some a \<Rightarrow>
             (let provider' = provider a;
                  wiredNewSheets = map (wire provider') newSheets;
                  sheets' =
                    sortByOrder
                      (map withOrder
                         (filter (\<lambda>sheet. provider sheet \<noteq> provider') sheets0
                          @ wiredNewSheets));
                  activeSheet' =
                    (case newActiveSheet of
                       None \<Rightarrow> Some a
                     | Some n \<Rightarrow> find (\<lambda>s. sheet_id s = sheet_id n) sheets')
              in Inr (st\<lparr>tab_cached :=
                           (tab_cached st)\<lparr>sheets := Some sheets',
                                           activeSheet := activeSheet'\<rparr>\<rparr>)))"

subsection \<open>Dirty state, content updates, import results\<close>

definition isXMLChange :: "js_str \<Rightarrow> js_str \<Rightarrow> bool" where
  "isXMLChange prevXML xml' = (prevXML \<noteq> xml')"

text \<open>The tab's \<open>isDirty(state)\<close>, for the \<open>dirty\<close> field of the editor's state.\<close>

definition tab_isDirty :: "bool \<Rightarrow> 'e MultiSheetTab \<Rightarrow> bool" where
  "tab_isDirty dirty' st =
     (if dirty' then True
      else if \<not> truthy (lastXML (tab_cached st)) then False
      else isXMLChange (lastXML (tab_cached st)) (xml (tab_props st)))"

definition tab_handleChanged :: "editor_state \<Rightarrow> 'e MultiSheetTab \<Rightarrow> 'e MultiSheetTab" where
  "tab_handleChanged newState st =
     (let dirty' = tab_isDirty (dirty newState) st
      in st\<lparr>tab_calls := tab_calls st @ [TabOnChanged (newState\<lparr>dirty := dirty'\<rparr>)]\<rparr>)"

definition handleContentUpdated :: "js_str \<Rightarrow> 'e MultiSheetTab \<Rightarrow> 'e MultiSheetTab" where
  "handleContentUpdated xml' st = st\<lparr>tab_cached := (tab_cached st)\<lparr>lastXML := xml'\<rparr>\<rparr>"

definition tab_componentDidUpdate :: "tab_props \<Rightarrow> 'e MultiSheetTab \<Rightarrow> 'e MultiSheetTab" where
  "tab_componentDidUpdate prevProps st =
     (if isXMLChange (xml prevProps) (xml (tab_props st))
      then st\<lparr>tab_cached := (tab_cached st)\<lparr>lastXML := xml (tab_props st)\<rparr>\<rparr>
      else st)"

definition openFallback :: "'e MultiSheetTab \<Rightarrow> 'e MultiSheetTab" where
  "openFallback st =
     (let sheets0 = (case sheets (tab_cached st) of
                       None \<Rightarrow> getDefaultSheets (providers (tab_props st))
                     | Some ss \<Rightarrow> ss)
      in case find (\<lambda>sheet. isFallback (provider sheet)) sheets0 of
           None \<Rightarrow> st
         | Some fallback \<Rightarrow>
             st\<lparr>tab_cached := (tab_cached st)\<lparr>activeSheet := Some fallback\<rparr>\<rparr>)"

text \<open>
  The tab's \<open>handleImport(error, warnings)\<close>, the function the editors receive as
  \<open>onImport\<close>. An argument that is not passed is \<open>undefined\<close>, here \<open>None\<close>. Of
  \<open>showImportErrorDialog\<close> the call that shows the dialog is recorded; what follows the
  user's answer is \<open>showImportErrorDialog_answer\<close>.
\<close>

definition tab_handleImport ::
  "js_error option \<Rightarrow> string list option \<Rightarrow> 'e MultiSheetTab \<Rightarrow> 'e MultiSheetTab" where
  "tab_handleImport error warnings st =
     (let st1 =
            (case warnings of
               None \<Rightarrow> st
             | Some ws \<Rightarrow>
                 if ws = [] then st
                 else
                   (let st' = st\<lparr>tab_calls := tab_calls st @ map TabOnWarning ws\<rparr>
                    in if error = None
                       then st'\<lparr>tab_calls := tab_calls st' @ [DisplayNotification (length ws)]\<rparr>
                       else st'))
      in case error of
           None \<Rightarrow> st1
         | Some e \<Rightarrow>
             (let st2 = openFallback st1
              in st2\<lparr>tab_calls := tab_calls st2 @ [ShowImportErrorDialog e, TabOnError e]\<rparr>))"

text \<open>
  The tab renders its editor with \<open>onImport={ this.handleImport }\<close>, so a call
  \<open>onImport(error)\<close> of the form editor is \<open>handleImport(error, undefined)\<close> in the tab.
\<close>

definition tab_onImport :: "fe_event \<Rightarrow> 'e MultiSheetTab \<Rightarrow> 'e MultiSheetTab" where
  "tab_onImport ev st =
     (case ev of
        OnImport error \<Rightarrow> tab_handleImport error None st
      | ImportSchemaCalled \<Rightarrow> st
      | SaveSchemaCalled \<Rightarrow> st
      | EditFormField ep \<Rightarrow> st
      | OnChanged newState \<Rightarrow> st)"

definition showImportErrorDialog_answer :: "string \<Rightarrow> 'e MultiSheetTab \<Rightarrow> 'e MultiSheetTab" where
  "showImportErrorDialog_answer button st =
     (if button = ''ask-in-forum''
      then st\<lparr>tab_calls := tab_calls st @ [OpenExternalUrl ''https://forum.camunda.org/c/modeler'']\<rparr>
      else st)"

subsection \<open>Switching sheets\<close>

text \<open>
  \<open>switchSheet(sheet)\<close> for an editor whose \<open>getXML\<close> (a parameter) rejects (\<open>Inl\<close>) or
  yields the document and the editor's next state. After the \<open>await\<close> the function goes
  on with \<open>switchSheet_resume\<close>. Reading \<open>activeSheet.provider\<close> without an active sheet,
  or calling \<open>getXML\<close> on an empty \<open>editorRef\<close>, throws.

  The test \<open>sheet === activeSheet\<close> is by reference. Were \<open>sheet\<close> another object with the
  contents of the active sheet, the source would go on to the branch for equal
  providers and store \<open>sheet\<close> as the active sheet, which leaves the same contents in the
  cache as returning at once does.
\<close>

definition switchSheet_resume :: "sheet \<Rightarrow> js_str \<Rightarrow> 'e MultiSheetTab \<Rightarrow> 'e MultiSheetTab" where
  "switchSheet_resume sheet' xml' st =
     (let st1 = st\<lparr>tab_cached := (tab_cached st)\<lparr>activeSheet := Some sheet',
                                                   lastXML := xml'\<rparr>\<rparr>
      in st1\<lparr>tab_calls := tab_calls st1 @ [EmitActiveSheetChanged sheet']\<rparr>)"

definition switchSheet ::
  "('e \<Rightarrow> js_error + js_str \<times> 'e) \<Rightarrow> sheet \<Rightarrow> 'e MultiSheetTab \<Rightarrow>
   tab_error + 'e MultiSheetTab" where
  "switchSheet editor_getXML sheet' st =
     (case activeSheet (tab_cached st) of
        None \<Rightarrow> Inl TypeError
      | Some a \<Rightarrow>
          if sheet' = a then Inr st
          else if provider sheet' = provider a
          then Inr (st\<lparr>tab_cached := (tab_cached st)\<lparr>activeSheet := Some sheet'\<rparr>\<rparr>)
          else
            (case editorRef st of
               None \<Rightarrow> Inl TypeError
             | Some ed \<Rightarrow>
                 (case editor_getXML ed of
                    Inl err \<Rightarrow> Inl (EditorRejected err)
                  | Inr (xml', ed') \<Rightarrow>
                      Inr (switchSheet_resume sheet' xml'
                             (st\<lparr>editorRef := Some ed',
                                 tab_calls := tab_calls st @ [EditorGetXML]\<rparr>)))))"

text \<open>The form editor as the tab's editor: its \<open>getXML\<close> never rejects.\<close>

definition formEditor_getXML ::
  "(form_schema \<Rightarrow> js_str) \<Rightarrow> FormEditor \<Rightarrow> js_error + js_str \<times> FormEditor" where
  "formEditor_getXML JSON_stringify ed = Inr (getXML JSON_stringify ed)"

section \<open>Concrete inputs\<close>

text \<open>
  A form tab as the application sets it up: a form provider and the fallback provider
  that shows the document as text, with their default sheets, and a mounted form editor
  over a form whose command stack is empty (position \<open>-1\<close>).
\<close>

definition formProvider :: provider where
  "formProvider = \<lparr>provider_type = ''form'', defaultName = ''Form'', isFallback = False\<rparr>"

definition jsonProvider :: provider where
  "jsonProvider = \<lparr>provider_type = ''json'', defaultName = ''JSON'', isFallback = True\<rparr>"

definition formSheet :: sheet where
  "formSheet = \<lparr>sheet_id = ''form'', name = ''Form'', provider = formProvider,
                sheet_type = ''form'', order = None, isDefault = True\<rparr>"

definition jsonSheet :: sheet where
  "jsonSheet = \<lparr>sheet_id = ''json'', name = ''JSON'', provider = jsonProvider,
                sheet_type = ''json'', order = None, isDefault = True\<rparr>"

text \<open>Two sheets as an editor may report them (no provider of their own yet).\<close>

definition reportedSheetB :: sheet where
  "reportedSheetB = \<lparr>sheet_id = ''b'', name = ''B'', provider = jsonProvider,
                     sheet_type = ''form'', order = Some 2, isDefault = False\<rparr>"

definition reportedSheetA :: sheet where
  "reportedSheetA = \<lparr>sheet_id = ''a'', name = ''A'', provider = jsonProvider,
                     sheet_type = ''form'', order = Some (-1), isDefault = False\<rparr>"

text \<open>
  Two form documents: the empty object \<open>{}\<close>, and an object that names Camunda Cloud
  1.1 as its execution platform, with the objects they parse to and the text
  \<open>JSON.stringify\<close> (indentation 2) makes of the second.
\<close>

definition emptySchema :: form_schema where
  "emptySchema = \<lparr>executionPlatform = Undefined, executionPlatformVersion = Undefined,
                  components = []\<rparr>"

definition cloudSchema :: form_schema where
  "cloudSchema = \<lparr>executionPlatform = Str ''Camunda Cloud'',
                  executionPlatformVersion = Str ''1.1'', components = []\<rparr>"

definition cloudDocument :: js_str where
  \<open>cloudDocument =
     Str ''{"executionPlatform":"Camunda Cloud","executionPlatformVersion":"1.1"}''\<close>

definition cloudSerialised :: js_str where
  \<open>cloudSerialised =
     Str (''{'' @ [CHR 0x0A]
          @ ''  "executionPlatform": "Camunda Cloud",'' @ [CHR 0x0A]
          @ ''  "executionPlatformVersion": "1.1"'' @ [CHR 0x0A]
          @ ''}'')\<close>

definition freshForm :: Form where
  "freshForm = \<lparr>commandStack = \<lparr>cs_stackIdx = - 1, canUndo = False, canRedo = False\<rparr>,
                getSchema = emptySchema, saveSchema = emptySchema\<rparr>"

definition cloudForm :: Form where
  "cloudForm = \<lparr>commandStack = \<lparr>cs_stackIdx = - 1, canUndo = False, canRedo = False\<rparr>,
                getSchema = cloudSchema, saveSchema = cloudSchema\<rparr>"

definition mountedEditor :: FormEditor where
  "mountedEditor =
     (newFormEditor \<lparr>xml = cloudDocument\<rparr> (createCachedState freshForm))
       \<lparr>isMounted := True\<rparr>"

text \<open>
  \<open>JSON.parse\<close> on the inputs of the examples. A parsed value is \<open>null\<close>, the empty
  array, or an object, given by its two platform fields and the rest. The function is
  \<open>JSON.parse\<close> on \<open>undefined\<close> and on the empty string (both throw a
  \<open>SyntaxError\<close>), on \<open>null\<close> (which yields \<open>null\<close>) and on the four documents
  \<open>null\<close>, \<open>[]\<close>, \<open>{}\<close> and \<open>cloudDocument\<close>. No example applies it to anything
  else; there it throws, which \<open>JSON.parse\<close> does not do on other well-formed JSON.
\<close>

datatype json = JNull | JEmptyArray | JObject form_schema

definition syntaxError :: js_error where
  "syntaxError = \<lparr>message = ''Unexpected token'', error_warnings = None\<rparr>"

definition parseDocument :: "js_str \<Rightarrow> js_error + json" where
  "parseDocument x =
     (case x of
        Undefined \<Rightarrow> Inl syntaxError
      | Null \<Rightarrow> Inr JNull
      | Str s \<Rightarrow>
          if Str s = cloudDocument then Inr (JObject cloudSchema)
          else if s = ''{}'' then Inr (JObject emptySchema)
          else if s = ''[]'' then Inr JEmptyArray
          else if s = ''null'' then Inr JNull
          else Inl syntaxError)"

text \<open>
  An engine for the examples: it imports an object, after which the form holds that
  object as its schema and the command stack is empty, and it rejects anything else
  with an error that carries a warning.
\<close>

definition importError :: js_error where
  "importError = \<lparr>message = ''unsupported schema'',
                  error_warnings = Some [''unknown field'']\<rparr>"

definition formImport :: "json \<Rightarrow> Form \<Rightarrow> import_result \<times> Form" where
  "formImport j f =
     (case j of
        JObject sch \<Rightarrow>
          (Resolved None (Some []),
           \<lparr>commandStack = \<lparr>cs_stackIdx = - 1, canUndo = False, canRedo = False\<rparr>,
            getSchema = sch, saveSchema = sch\<rparr>)
      | JEmptyArray \<Rightarrow> (Rejected importError, f)
      | JNull \<Rightarrow> (Rejected importError, f))"

text \<open>The engine after one command was executed on the form.\<close>

definition executeCommand :: "Form \<Rightarrow> Form" where
  "executeCommand f =
     f\<lparr>commandStack := \<lparr>cs_stackIdx = cs_stackIdx (commandStack f) + 1,
                          canUndo = True, canRedo = False\<rparr>\<rparr>"

text \<open>
  \<open>JSON.stringify\<close> with indentation 2 on the two schemas of the examples; no example
  applies it to another one.
\<close>

definition stringifySchema :: "form_schema \<Rightarrow> js_str" where
  "stringifySchema sch =
     (if sch = cloudSchema then cloudSerialised
      else if sch = emptySchema then Str ''{}''
      else Undefined)"

text \<open>
  The mounted editor after its document was imported, after one command was then
  executed on the form, and after the document \<open>[]\<close> arrived next, which parses and
  which the engine rejects.
\<close>

definition importedEditor :: FormEditor where
  "importedEditor = importSchema parseDocument formImport mountedEditor"

definition editedEditor :: FormEditor where
  "editedEditor =
     importedEditor\<lparr>cached := (cached importedEditor)
                      \<lparr>form := executeCommand (form (cached importedEditor))\<rparr>\<rparr>"

definition failedEditor :: FormEditor where
  "failedEditor =
     importSchema parseDocument formImport
       (importedEditor\<lparr>props := \<lparr>xml = Str ''[]''\<rparr>\<rparr>)"

text \<open>
  The mounted editor while the import of its document is in flight, and the same editor
  when that import has completed after the document \<open>{}\<close> had arrived as the new \<open>xml\<close>
  prop in the meantime.
\<close>

definition importingEditor :: FormEditor where
  "importingEditor = suspended_state (checkImport parseDocument None mountedEditor)"

definition overtakenEditor :: FormEditor where
  "overtakenEditor =
     resume_import formImport (JObject cloudSchema)
       (suspended_state (updateProps parseDocument \<lparr>xml = Str ''{}''\<rparr> importingEditor))"

text \<open>The tab around the mounted form editor, showing the form sheet.\<close>

definition formTab :: "FormEditor MultiSheetTab" where
  "formTab =
     (newMultiSheetTab
        \<lparr>xml = cloudDocument, providers = [formProvider, jsonProvider]\<rparr>
        \<lparr>sheets = None, activeSheet = None, lastXML = Undefined\<rparr>)
       \<lparr>editorRef := Some mountedEditor\<rparr>"

section \<open>Properties of the multi-sheet tab\<close>

subsection \<open>Sheet reconciliation\<close>

lemma provider_withOrder: "provider (withOrder s) = provider s"
  by (simp add: withOrder_def)

lemma provider_wire: "provider (wire p n) = p"
  by (simp add: wire_def)

lemma orderOrZero_withOrder: "orderOrZero (withOrder s) = orderOrZero s"
  by (simp add: withOrder_def orderOrZero_def)

lemma order_withOrder: "order (withOrder s) = Some (orderOrZero s)"
  by (simp add: withOrder_def)

text \<open>A sheet that has an order is not changed by the defaulting.\<close>

lemma withOrder_unaltered: "order s \<noteq> None \<Longrightarrow> withOrder s = s"
  by (auto simp: withOrder_def orderOrZero_def)

text \<open>A sheet without an order gets the order 0, and nothing else of it changes.\<close>

lemma withOrder_absent: "order s = None \<Longrightarrow> withOrder s = s\<lparr>order := Some 0\<rparr>"
  by (simp add: withOrder_def orderOrZero_def)

lemma mset_sortByOrder: "mset (sortByOrder ss) = mset ss"
  by (simp add: sortByOrder_def)

lemma set_sortByOrder: "set (sortByOrder ss) = set ss"
  by (simp add: sortByOrder_def)

lemma sorted_sortByOrder: "sorted (map orderOrZero (sortByOrder ss))"
  by (simp add: sortByOrder_def)

lemma filter_sortByOrder: "filter P (sortByOrder ss) = sortByOrder (filter P ss)"
  by (simp add: sortByOrder_def filter_sort)

lemma filter_others:
  "filter (\<lambda>s. provider s \<noteq> p)
     (map withOrder (filter (\<lambda>s. provider s \<noteq> p) S @ map (wire p) L))
   = map withOrder (filter (\<lambda>s. provider s \<noteq> p) S)"
  by (induction S) (auto simp: filter_map o_def provider_withOrder provider_wire)

lemma filter_own:
  "filter (\<lambda>s. provider s = p)
     (map withOrder (filter (\<lambda>s. provider s \<noteq> p) S @ map (wire p) L))
   = map (\<lambda>n. withOrder (wire p n)) L"
  by (induction S) (auto simp: filter_map o_def provider_withOrder provider_wire)

text \<open>
  C1, as amended. Let \<open>a\<close> be the cached active sheet and \<open>S\<close> the cached sheet list
  (empty when none is cached). \<open>sheetsChanged(L, newActiveSheet)\<close> stores a list \<open>R\<close>
  that consists exactly of the sheets of \<open>S\<close> whose provider differs from \<open>a.provider\<close>
  and of the sheets of \<open>L\<close> wired to \<open>a.provider\<close>, every one of them with its order
  defaulted to 0 when absent; \<open>R\<close> is sorted ascending by order. The part of \<open>R\<close> that
  belongs to other providers is the old one (with the orders defaulted), whatever \<open>L\<close>
  is, and the part that belongs to \<open>a.provider\<close> comes from \<open>L\<close> alone. A sheet of
  another provider is kept as it is when it has an order, and with the order 0 added
  when it has none. When \<open>newActiveSheet\<close> is supplied the active sheet becomes the first
  element of \<open>R\<close> with the id of \<open>newActiveSheet\<close> (none when \<open>R\<close> has no such element);
  otherwise it stays \<open>a\<close>. Nothing else of the tab changes.
\<close>

theorem sheetsChanged_reconciles:
  assumes "activeSheet (tab_cached st) = Some a"
  shows "\<exists>R. sheetsChanged L newActiveSheet st =
               Inr (st\<lparr>tab_cached := (tab_cached st)
                      \<lparr>sheets := Some R,
                       activeSheet :=
                         (case newActiveSheet of
                            None \<Rightarrow> Some a
                          | Some n \<Rightarrow> find (\<lambda>s. sheet_id s = sheet_id n) R)\<rparr>\<rparr>)
           \<and> mset R =
               mset (map withOrder
                      (filter (\<lambda>s. provider s \<noteq> provider a) (sheetsOrEmpty (tab_cached st))))
               + mset (map (\<lambda>n. withOrder (wire (provider a) n)) L)
           \<and> sorted (map orderOrZero R)
           \<and> (\<forall>s \<in> set R. order s = Some (orderOrZero s))
           \<and> filter (\<lambda>s. provider s \<noteq> provider a) R =
               sortByOrder (map withOrder
                 (filter (\<lambda>s. provider s \<noteq> provider a) (sheetsOrEmpty (tab_cached st))))
           \<and> filter (\<lambda>s. provider s = provider a) R =
               sortByOrder (map (\<lambda>n. withOrder (wire (provider a) n)) L)
           \<and> (\<forall>s \<in> set (sheetsOrEmpty (tab_cached st)).
                 provider s \<noteq> provider a \<longrightarrow>
                   (order s \<noteq> None \<longrightarrow> s \<in> set R)
                   \<and> (order s = None \<longrightarrow> s\<lparr>order := Some 0\<rparr> \<in> set R))"
proof -
  let ?p = "provider a"
  let ?S = "sheetsOrEmpty (tab_cached st)"
  let ?pre = "map withOrder (filter (\<lambda>s. provider s \<noteq> ?p) ?S @ map (wire ?p) L)"
  let ?R = "sortByOrder ?pre"
  have run: "sheetsChanged L newActiveSheet st =
               Inr (st\<lparr>tab_cached := (tab_cached st)
                      \<lparr>sheets := Some ?R,
                       activeSheet :=
                         (case newActiveSheet of
                            None \<Rightarrow> Some a
                          | Some n \<Rightarrow> find (\<lambda>s. sheet_id s = sheet_id n) ?R)\<rparr>\<rparr>)"
    using assms by (cases newActiveSheet) (simp_all add: sheetsChanged_def Let_def)
  have m: "mset ?R = mset (map withOrder (filter (\<lambda>s. provider s \<noteq> ?p) ?S))
                     + mset (map (\<lambda>n. withOrder (wire ?p n)) L)"
    by (simp add: mset_sortByOrder o_def)
  have s: "sorted (map orderOrZero ?R)"
    by (rule sorted_sortByOrder)
  have o: "\<forall>s \<in> set ?R. order s = Some (orderOrZero s)"
    by (auto simp: set_sortByOrder order_withOrder orderOrZero_withOrder)
  have f1: "filter (\<lambda>s. provider s \<noteq> ?p) ?R =
              sortByOrder (map withOrder (filter (\<lambda>s. provider s \<noteq> ?p) ?S))"
    by (simp only: filter_sortByOrder filter_others)
  have f2: "filter (\<lambda>s. provider s = ?p) ?R =
              sortByOrder (map (\<lambda>n. withOrder (wire ?p n)) L)"
    by (simp only: filter_sortByOrder filter_own)
  have k: "\<forall>s \<in> set ?S. provider s \<noteq> ?p \<longrightarrow>
             (order s \<noteq> None \<longrightarrow> s \<in> set ?R)
             \<and> (order s = None \<longrightarrow> s\<lparr>order := Some 0\<rparr> \<in> set ?R)"
  proof (intro ballI impI conjI)
    fix s assume kept: "s \<in> set ?S" "provider s \<noteq> ?p"
    then have w: "withOrder s \<in> set ?R"
      by (simp add: set_sortByOrder)
    { assume "order s \<noteq> None"
      then have "withOrder s = s" by (rule withOrder_unaltered)
      with w show "s \<in> set ?R" by simp }
    { assume "order s = None"
      then have "withOrder s = s\<lparr>order := Some 0\<rparr>" by (rule withOrder_absent)
      with w show "s\<lparr>order := Some 0\<rparr> \<in> set ?R" by simp }
  qed
  from run m s o f1 f2 k show ?thesis by blast
qed

text \<open>
  The form tab with its two default sheets, the form sheet active: the editor reports
  two sheets, out of order, and names the second as the new active sheet.
\<close>

theorem sheetsChanged_reconciles_witness:
  "activeSheet (tab_cached formTab) = Some formSheet
   \<and> sheetsChanged [reportedSheetB, reportedSheetA] (Some reportedSheetA) formTab =
       Inr (formTab\<lparr>tab_cached := (tab_cached formTab)
              \<lparr>sheets := Some [reportedSheetA\<lparr>provider := formProvider\<rparr>,
                               jsonSheet\<lparr>order := Some 0\<rparr>,
                               reportedSheetB\<lparr>provider := formProvider\<rparr>],
               activeSheet := Some (reportedSheetA\<lparr>provider := formProvider\<rparr>)\<rparr>\<rparr>)"
proof -
  have h: "activeSheet (tab_cached formTab) = Some formSheet"
    by (simp add: formTab_def newMultiSheetTab_def getDefaultSheets_def first_elem_def
        formSheet_def formProvider_def)
  have e: "sheetsChanged [reportedSheetB, reportedSheetA] (Some reportedSheetA) formTab =
       Inr (formTab\<lparr>tab_cached := (tab_cached formTab)
              \<lparr>sheets := Some [reportedSheetA\<lparr>provider := formProvider\<rparr>,
                               jsonSheet\<lparr>order := Some 0\<rparr>,
                               reportedSheetB\<lparr>provider := formProvider\<rparr>],
               activeSheet := Some (reportedSheetA\<lparr>provider := formProvider\<rparr>)\<rparr>\<rparr>)"
    by (simp add: sheetsChanged_def Let_def sheetsOrEmpty_def sortByOrder_def withOrder_def
        wire_def orderOrZero_def formTab_def newMultiSheetTab_def getDefaultSheets_def
        first_elem_def formSheet_def jsonSheet_def formProvider_def jsonProvider_def
        reportedSheetA_def reportedSheetB_def)
  from sheetsChanged_reconciles [OF h, of "[reportedSheetB, reportedSheetA]" "Some reportedSheetA"]
    h e show ?thesis by simp
qed

text \<open>
  The claim as it is stated fails where a kept sheet has no order: the default sheet of
  the other provider is not in the result as it was, the result holds it with the order
  0 added.
\<close>

theorem sheetsChanged_alters_kept_sheet_counterexample:
  "activeSheet (tab_cached formTab) = Some formSheet
   \<and> jsonSheet \<in> set (sheetsOrEmpty (tab_cached formTab))
   \<and> provider jsonSheet \<noteq> provider formSheet
   \<and> sheetsChanged [] None formTab =
       Inr (formTab\<lparr>tab_cached := (tab_cached formTab)
              \<lparr>sheets := Some [jsonSheet\<lparr>order := Some 0\<rparr>],
               activeSheet := Some formSheet\<rparr>\<rparr>)
   \<and> jsonSheet \<notin> set [jsonSheet\<lparr>order := Some 0\<rparr>]"
  by (simp add: sheetsChanged_def Let_def sheetsOrEmpty_def sortByOrder_def withOrder_def
      wire_def orderOrZero_def formTab_def newMultiSheetTab_def getDefaultSheets_def
      first_elem_def formSheet_def jsonSheet_def formProvider_def jsonProvider_def)

subsection \<open>Switching sheets\<close>

text \<open>
  C2. Let the cached active sheet be \<open>a\<close> and \<open>sheet\<close> be another sheet. If both have the
  same provider, \<open>switchSheet(sheet)\<close> only replaces the active sheet: the editor's
  \<open>getXML\<close> plays no part (the outcome is the same for every \<open>getXML\<close>, the editor is left
  as it was and no call is recorded). If the providers differ, the editor's \<open>getXML\<close> is
  called first; when it yields a document, that document becomes \<open>lastXML\<close> in the same
  cache update that makes \<open>sheet\<close> the active sheet, and the change of the active sheet is
  announced after that; when it rejects, the switch is abandoned with that rejection.
\<close>

theorem switchSheet_fetches_across_providers_only:
  assumes "activeSheet (tab_cached st) = Some a" and "sheet' \<noteq> a"
  shows "(provider sheet' = provider a \<longrightarrow>
            switchSheet editor_getXML sheet' st =
              Inr (st\<lparr>tab_cached := (tab_cached st)\<lparr>activeSheet := Some sheet'\<rparr>\<rparr>))
         \<and> (provider sheet' \<noteq> provider a \<longrightarrow> editorRef st = Some ed \<longrightarrow>
              switchSheet editor_getXML sheet' st =
                (case editor_getXML ed of
                   Inl err \<Rightarrow> Inl (EditorRejected err)
                 | Inr (xml', ed') \<Rightarrow>
                     Inr (st\<lparr>editorRef := Some ed',
                             tab_cached := (tab_cached st)\<lparr>activeSheet := Some sheet',
                                                           lastXML := xml'\<rparr>,
                             tab_calls := tab_calls st
                                          @ [EditorGetXML, EmitActiveSheetChanged sheet']\<rparr>)))"
  using assms
  by (auto simp: switchSheet_def switchSheet_resume_def split: sum.splits)

text \<open>
  On the form tab: switching to a second sheet of the form provider, and switching to
  the sheet of the fallback provider, which fetches the document from the form editor.
\<close>

theorem switchSheet_fetches_across_providers_only_witness:
  "activeSheet (tab_cached formTab) = Some formSheet
   \<and> formSheet\<lparr>sheet_id := ''second''\<rparr> \<noteq> formSheet
   \<and> provider (formSheet\<lparr>sheet_id := ''second''\<rparr>) = provider formSheet
   \<and> switchSheet (formEditor_getXML stringifySchema)
        (formSheet\<lparr>sheet_id := ''second''\<rparr>) formTab =
       Inr (formTab\<lparr>tab_cached := (tab_cached formTab)
              \<lparr>activeSheet := Some (formSheet\<lparr>sheet_id := ''second''\<rparr>)\<rparr>\<rparr>)
   \<and> jsonSheet \<noteq> formSheet
   \<and> provider jsonSheet \<noteq> provider formSheet
   \<and> editorRef formTab = Some mountedEditor
   \<and> switchSheet (formEditor_getXML stringifySchema) jsonSheet formTab =
       Inr (formTab\<lparr>tab_cached := (tab_cached formTab)
              \<lparr>activeSheet := Some jsonSheet, lastXML := cloudDocument\<rparr>,
             tab_calls := [EditorGetXML, EmitActiveSheetChanged jsonSheet]\<rparr>)"
proof -
  have h: "activeSheet (tab_cached formTab) = Some formSheet"
    by (simp add: formTab_def newMultiSheetTab_def getDefaultSheets_def first_elem_def
        formSheet_def formProvider_def)
  have d1: "formSheet\<lparr>sheet_id := ''second''\<rparr> \<noteq> formSheet"
    by (simp add: formSheet_def)
  have p1: "provider (formSheet\<lparr>sheet_id := ''second''\<rparr>) = provider formSheet"
    by simp
  have d2: "jsonSheet \<noteq> formSheet"
    by (simp add: formSheet_def jsonSheet_def)
  have p2: "provider jsonSheet \<noteq> provider formSheet"
    by (simp add: formSheet_def jsonSheet_def formProvider_def jsonProvider_def)
  have r: "editorRef formTab = Some mountedEditor"
    by (simp add: formTab_def newMultiSheetTab_def)
  have c: "tab_calls formTab = []"
    by (simp add: formTab_def newMultiSheetTab_def)
  have g: "formEditor_getXML stringifySchema mountedEditor =
             Inr (cloudDocument, mountedEditor)"
    by (simp add: formEditor_getXML_def getXML_def isDirty_def js_or_def mountedEditor_def
        newFormEditor_def createCachedState_def freshForm_def)
  from switchSheet_fetches_across_providers_only
         [OF h d1, of "formEditor_getXML stringifySchema" mountedEditor]
       switchSheet_fetches_across_providers_only
         [OF h d2, of "formEditor_getXML stringifySchema" mountedEditor]
       h d1 p1 d2 p2 r c g
  show ?thesis by simp
qed

section \<open>Properties of the form editor wrapper\<close>

subsection \<open>The examples, evaluated\<close>

lemma mountedEditor_eval:
  "mountedEditor =
     \<lparr>importing = False, changed = None, isMounted = True,
      props = \<lparr>xml = cloudDocument\<rparr>,
      cached = \<lparr>engineProfile = None, form = freshForm, lastSchema = Null,
                stackIdx = - 1\<rparr>,
      events = []\<rparr>"
  by (simp add: mountedEditor_def newFormEditor_def createCachedState_def freshForm_def)

lemma parseDocument_eval:
  "parseDocument cloudDocument = Inr (JObject cloudSchema)"
  "parseDocument (Str ''{}'') = Inr (JObject emptySchema)"
  "parseDocument (Str ''[]'') = Inr JEmptyArray"
  by (simp_all add: parseDocument_def cloudDocument_def)

lemma documents_differ:
  "cloudDocument \<noteq> Null" "cloudDocument \<noteq> Undefined"
  "cloudDocument \<noteq> Str ''{}''" "cloudDocument \<noteq> Str ''[]''"
  "Str ''{}'' \<noteq> cloudDocument" "Str ''[]'' \<noteq> cloudDocument"
  "truthy cloudDocument"
  by (simp_all add: cloudDocument_def)

lemma formImport_eval:
  "formImport (JObject cloudSchema) f = (Resolved None (Some []), cloudForm)"
  "formImport JEmptyArray f = (Rejected importError, f)"
  by (simp_all add: formImport_def cloudForm_def)

lemma importedEditor_eval:
  "importedEditor =
     \<lparr>importing = False, changed = None, isMounted = True,
      props = \<lparr>xml = cloudDocument\<rparr>,
      cached = \<lparr>engineProfile =
                  Some \<lparr>executionPlatform = Str ''Camunda Cloud'',
                        executionPlatformVersion = Str ''1.1''\<rparr>,
                form = cloudForm,
                lastSchema = cloudDocument, stackIdx = - 1\<rparr>,
      events = [ImportSchemaCalled, OnImport None]\<rparr>"
  by (simp add: importedEditor_def importSchema_def importSchema_start_def run_import_def
      importSchema_resume_def importSchema_finish_def handleImport_def Let_def
      parseDocument_eval formImport_eval mountedEditor_eval)
     (simp add: cloudForm_def cloudSchema_def)

lemma failedEditor_eval:
  "failedEditor =
     \<lparr>importing = False, changed = None, isMounted = True,
      props = \<lparr>xml = Str ''[]''\<rparr>,
      cached = \<lparr>engineProfile = None,
                form = cloudForm,
                lastSchema = Null, stackIdx = - 1\<rparr>,
      events = [ImportSchemaCalled, OnImport None, ImportSchemaCalled,
                OnImport (Some importError)]\<rparr>"
  by (simp add: failedEditor_def importSchema_def importSchema_start_def run_import_def
      importSchema_resume_def importSchema_catch_def importSchema_finish_def
      handleImport_def Let_def parseDocument_eval formImport_eval importedEditor_eval)

lemma importingEditor_eval:
  "importingEditor =
     \<lparr>importing = True, changed = None, isMounted = True,
      props = \<lparr>xml = cloudDocument\<rparr>,
      cached = \<lparr>engineProfile = None, form = freshForm, lastSchema = Null,
                stackIdx = - 1\<rparr>,
      events = [ImportSchemaCalled]\<rparr>"
  by (simp add: importingEditor_def checkImport_def isImportNeeded_def Let_def
      importSchema_start_def suspended_state_def parseDocument_eval documents_differ
      mountedEditor_eval)

lemma overtakenEditor_eval:
  "overtakenEditor =
     \<lparr>importing = False, changed = None, isMounted = True,
      props = \<lparr>xml = Str ''{}''\<rparr>,
      cached = \<lparr>engineProfile =
                  Some \<lparr>executionPlatform = Str ''Camunda Cloud'',
                        executionPlatformVersion = Str ''1.1''\<rparr>,
                form = cloudForm,
                lastSchema = Str ''{}'', stackIdx = - 1\<rparr>,
      events = [ImportSchemaCalled, OnImport None]\<rparr>"
  by (simp add: overtakenEditor_def resume_import_def updateProps_def
      componentDidUpdate_def checkImport_def isImportNeeded_def suspended_state_def
      importSchema_resume_def importSchema_finish_def handleImport_def Let_def
      formImport_eval importingEditor_eval)
     (simp add: cloudForm_def cloudSchema_def)

subsection \<open>When an import is started\<close>

text \<open>The state in which a started \<open>importSchema\<close> is left when \<open>checkImport\<close> returns.\<close>

lemma importSchema_start_counts:
  "count_list (events (suspended_state (importSchema_start JSON_parse st))) ImportSchemaCalled
   = Suc (count_list (events st) ImportSchemaCalled)"
  by (auto simp: importSchema_start_def importSchema_catch_def importSchema_finish_def
      handleImport_def Let_def suspended_state_def split: sum.splits option.splits)

text \<open>
  C3, as amended. On a props update (and on mount, where the previous schema is
  \<open>undefined\<close>) \<open>importSchema\<close> is invoked if and only if no import is in flight, the
  supplied schema differs from the schema of the previous props, and it differs from the
  cached \<open>lastSchema\<close>. Otherwise nothing happens.
\<close>

theorem checkImport_invokes_importSchema_iff:
  "checkImport JSON_parse prevProps st =
     (if \<not> importing st
         \<and> xml (props st) \<noteq> (case prevProps of None \<Rightarrow> Undefined | Some pp \<Rightarrow> xml pp)
         \<and> xml (props st) \<noteq> lastSchema (cached st)
      then importSchema_start JSON_parse st
      else Settled st)
   \<and> count_list (events (suspended_state (checkImport JSON_parse prevProps st)))
        ImportSchemaCalled =
       count_list (events st) ImportSchemaCalled
       + (if \<not> importing st
             \<and> xml (props st) \<noteq> (case prevProps of None \<Rightarrow> Undefined | Some pp \<Rightarrow> xml pp)
             \<and> xml (props st) \<noteq> lastSchema (cached st)
          then 1 else 0)"
proof (cases "isImportNeeded prevProps st")
  case True
  then show ?thesis
    by (simp add: checkImport_def importSchema_start_counts)
       (auto simp: isImportNeeded_def Let_def split: if_splits)
next
  case False
  then show ?thesis
    by (simp add: checkImport_def suspended_state_def)
       (auto simp: isImportNeeded_def Let_def split: if_splits)
qed

text \<open>
  A mounted editor that has not imported yet receives a new document: the import starts.
  The same editor rendered again with the document it already has: no import.
\<close>

theorem checkImport_invokes_importSchema_iff_witness:
  "updateProps parseDocument \<lparr>xml = Str ''{}''\<rparr> mountedEditor =
     importSchema_start parseDocument (mountedEditor\<lparr>props := \<lparr>xml = Str ''{}''\<rparr>\<rparr>)
   \<and> updateProps parseDocument (props mountedEditor) mountedEditor = Settled mountedEditor"
  using checkImport_invokes_importSchema_iff
          [of parseDocument "Some (props mountedEditor)"
              "mountedEditor\<lparr>props := \<lparr>xml = Str ''{}''\<rparr>\<rparr>"]
        checkImport_invokes_importSchema_iff
          [of parseDocument "Some (props mountedEditor)" mountedEditor]
  by (simp add: updateProps_def componentDidUpdate_def mountedEditor_eval documents_differ)

text \<open>
  The claim as it is stated fails on a props update that leaves the schema as it was.
  After a rejected import the cached \<open>lastSchema\<close> is \<open>null\<close>, so the schema differs
  from it, and no import is in flight; the component is rendered again with the same
  props, and \<open>importSchema\<close> is not invoked.
\<close>

theorem checkImport_unchanged_schema_counterexample:
  "xml (props failedEditor) \<noteq> lastSchema (cached failedEditor)
   \<and> \<not> importing failedEditor
   \<and> updateProps parseDocument (props failedEditor) failedEditor = Settled failedEditor"
  by (simp add: updateProps_def componentDidUpdate_def checkImport_def isImportNeeded_def
      failedEditor_eval)

subsection \<open>Dirty state\<close>

text \<open>
  C4. The dirty flag of the form editor is the comparison of the command stack's
  position with the cached baseline position. It does not depend on any document: not
  on the \<open>xml\<close> prop, not on the cached \<open>lastSchema\<close> or engine profile, not on the schema
  the form holds. It is the flag reported through \<open>handleChanged\<close>.
\<close>

theorem isDirty_compares_stack_positions:
  "isDirty st = (cs_stackIdx (commandStack (form (cached st))) \<noteq> stackIdx (cached st))
   \<and> isDirty (st\<lparr>props := p,
                 cached := (cached st)
                   \<lparr>lastSchema := l, engineProfile := e,
                    form := (form (cached st))\<lparr>getSchema := g, saveSchema := s\<rparr>\<rparr>\<rparr>)
       = isDirty st
   \<and> map_option dirty (changed (handleChanged onChangedIsFunction isInputActive st))
       = Some (isDirty st)
   \<and> events (handleChanged True isInputActive st) =
       events st
       @ [OnChanged \<lparr>defaultUndoRedo = isInputActive, dirty = isDirty st,
                     inputActive = isInputActive,
                     redo = canRedo (commandStack (form (cached st))), save = True,
                     undo = canUndo (commandStack (form (cached st)))\<rparr>]"
  by (simp add: isDirty_def handleChanged_def Let_def)

theorem isDirty_compares_stack_positions_witness:
  "\<not> isDirty mountedEditor
   \<and> \<not> isDirty (mountedEditor\<lparr>props := \<lparr>xml = Str ''{}''\<rparr>,
                   cached := (cached mountedEditor)
                     \<lparr>lastSchema := Str ''[]'', engineProfile := None,
                      form := (form (cached mountedEditor))
                        \<lparr>getSchema := cloudSchema, saveSchema := cloudSchema\<rparr>\<rparr>\<rparr>)
   \<and> isDirty (mountedEditor\<lparr>cached := (cached mountedEditor)
                   \<lparr>form := executeCommand (form (cached mountedEditor))\<rparr>\<rparr>)"
  using isDirty_compares_stack_positions
          [where st = mountedEditor and p = "\<lparr>xml = Str ''{}''\<rparr>"
             and l = "Str ''[]''" and e = None and g = cloudSchema and s = cloudSchema]
        isDirty_compares_stack_positions
          [where st = "mountedEditor\<lparr>cached := (cached mountedEditor)
                   \<lparr>form := executeCommand (form (cached mountedEditor))\<rparr>\<rparr>"]
  by (simp add: mountedEditor_def newFormEditor_def createCachedState_def freshForm_def
      executeCommand_def)

text \<open>
  The tab adds to the flag it receives: its own \<open>isDirty\<close> is also true when a
  \<open>lastXML\<close> is cached that is not the \<open>xml\<close> prop.
\<close>

lemma tab_isDirty_eq:
  "tab_isDirty d st =
     (d \<or> (truthy (lastXML (tab_cached st)) \<and> lastXML (tab_cached st) \<noteq> xml (tab_props st)))"
  by (simp add: tab_isDirty_def isXMLChange_def)

subsection \<open>Outcome of an import\<close>

text \<open>What \<open>handleImport\<close> does with an error, and without one.\<close>

lemma handleImport_error:
  "handleImport (Some e) warnings st =
     st\<lparr>cached := (cached st)\<lparr>engineProfile := None, lastSchema := Null\<rparr>,
        importing := False,
        events := events st @ [OnImport (Some e)]\<rparr>"
  by (simp add: handleImport_def Let_def)

lemma handleImport_no_error:
  "handleImport None warnings st =
     st\<lparr>cached := (cached st)
          \<lparr>engineProfile :=
             (if executionPlatform (getSchema (form (cached st))) \<noteq> Undefined
              then Some \<lparr>executionPlatform = executionPlatform (getSchema (form (cached st))),
                          executionPlatformVersion =
                            executionPlatformVersion (getSchema (form (cached st)))\<rparr>
              else None),
           lastSchema := xml (props st),
           stackIdx := cs_stackIdx (commandStack (form (cached st)))\<rparr>,
        importing := False,
        events := events st @ [OnImport None]\<rparr>"
  by (simp add: handleImport_def Let_def)

text \<open>The warnings handed to \<open>handleImport\<close> have no effect at all.\<close>

lemma handleImport_ignores_warnings:
  "handleImport error warnings st = handleImport error warnings' st"
  by (simp add: handleImport_def Let_def)

text \<open>
  An import that runs undisturbed on a mounted editor and whose document parses ends in
  \<open>handleImport\<close>, applied to the component with the form as the engine left it.
\<close>

lemma importSchema_resolved:
  assumes "isMounted st" and "JSON_parse (xml (props st)) = Inr j"
    and "form_importSchema j (form (cached st)) = (Resolved error warnings, f')"
  shows "importSchema JSON_parse form_importSchema st =
           handleImport error warnings
             (st\<lparr>importing := True, events := events st @ [ImportSchemaCalled],
                 cached := (cached st)\<lparr>form := f'\<rparr>\<rparr>)"
  using assms
  by (simp add: importSchema_def importSchema_start_def run_import_def
      importSchema_resume_def importSchema_finish_def Let_def)

lemma importSchema_rejected:
  assumes "isMounted st" and "JSON_parse (xml (props st)) = Inr j"
    and "form_importSchema j (form (cached st)) = (Rejected err, f')"
  shows "importSchema JSON_parse form_importSchema st =
           handleImport (Some err) (error_warnings err)
             (st\<lparr>importing := True, events := events st @ [ImportSchemaCalled],
                 cached := (cached st)\<lparr>form := f'\<rparr>\<rparr>)"
  using assms
  by (simp add: importSchema_def importSchema_start_def run_import_def
      importSchema_resume_def importSchema_catch_def importSchema_finish_def Let_def)

lemma importSchema_parse_throws:
  assumes "isMounted st" and "JSON_parse (xml (props st)) = Inl err"
  shows "importSchema JSON_parse form_importSchema st =
           handleImport (Some err) (error_warnings err)
             (st\<lparr>importing := True, events := events st @ [ImportSchemaCalled]\<rparr>)"
  using assms
  by (simp add: importSchema_def importSchema_start_def run_import_def
      importSchema_catch_def importSchema_finish_def Let_def)

text \<open>
  The schema cached by a successful import is the \<open>xml\<close> prop the component has when the
  import completes; it is the document that was imported when the prop was not replaced
  while the import was in flight.
\<close>

lemma importSchema_resume_caches_current_prop:
  "isMounted st \<Longrightarrow>
     lastSchema (cached (importSchema_resume (Resolved None warnings) st)) = xml (props st)"
  by (simp add: importSchema_resume_def importSchema_finish_def handleImport_no_error)

text \<open>
  A completed import is not applied to a component that has been unmounted meanwhile.
\<close>

lemma importSchema_resume_unmounted:
  "\<not> isMounted st \<Longrightarrow> importSchema_resume r st = st"
  by (simp add: importSchema_resume_def importSchema_catch_def importSchema_finish_def
      split: import_result.splits)

text \<open>
  What holds when an import has ended in failure, whichever way it failed (the three
  lemmas above lead to \<open>handleImport\<close> with an error): the cached \<open>lastSchema\<close> and
  engine profile are \<open>null\<close> afterwards, no import is in flight, the error went to
  \<open>onImport\<close> in the one call made, and the render that follows (same props) starts no
  import, while a later different document does.
\<close>

lemma import_failure_resets_and_reports:
  assumes st': "st' = handleImport (Some err) warnings st"
  shows "lastSchema (cached st') = Null"
    and "engineProfile (cached st') = None"
    and "\<not> importing st'"
    and "events st' = events st @ [OnImport (Some err)]"
    and "props st' = props st"
    and "updateProps JSON_parse (props st') st' = Settled st'"
    and "xml p \<noteq> xml (props st) \<Longrightarrow> xml p \<noteq> Null \<Longrightarrow>
           updateProps JSON_parse p st' = importSchema_start JSON_parse (st'\<lparr>props := p\<rparr>)"
proof -
  show "lastSchema (cached st') = Null" "engineProfile (cached st') = None"
    "\<not> importing st'" "events st' = events st @ [OnImport (Some err)]"
    "props st' = props st"
    by (simp_all add: st' handleImport_error)
  show "updateProps JSON_parse (props st') st' = Settled st'"
    by (simp add: st' handleImport_error updateProps_def componentDidUpdate_def
        checkImport_def isImportNeeded_def)
  show "xml p \<noteq> xml (props st) \<Longrightarrow> xml p \<noteq> Null \<Longrightarrow>
           updateProps JSON_parse p st' = importSchema_start JSON_parse (st'\<lparr>props := p\<rparr>)"
    by (simp add: st' handleImport_error updateProps_def componentDidUpdate_def
        checkImport_def isImportNeeded_def)
qed

text \<open>
  C5. An editor that has imported a document receives the document \<open>[]\<close>. It is JSON,
  so \<open>JSON.parse\<close> returns and the engine is asked to import; the engine rejects with an
  error that carries a warning. The cached \<open>lastSchema\<close> and engine profile are reset to
  \<open>null\<close>, no import is in flight any more, and \<open>onImport\<close> is called once, with the error
  alone. The warning is not passed on: the tab, which receives the call, surfaces the
  error and no warning, whereas it would have surfaced the warning had it been passed as
  the second argument.
\<close>

theorem import_failure_drops_warnings:
  "failedEditor =
     importSchema parseDocument formImport
       (importedEditor\<lparr>props := \<lparr>xml = Str ''[]''\<rparr>\<rparr>)
   \<and> parseDocument (Str ''[]'') = Inr JEmptyArray
   \<and> formImport JEmptyArray (form (cached importedEditor))
       = (Rejected importError, form (cached importedEditor))
   \<and> lastSchema (cached importedEditor) = cloudDocument
   \<and> engineProfile (cached importedEditor)
       = Some \<lparr>executionPlatform = Str ''Camunda Cloud'',
               executionPlatformVersion = Str ''1.1''\<rparr>
   \<and> lastSchema (cached failedEditor) = Null
   \<and> engineProfile (cached failedEditor) = None
   \<and> \<not> importing failedEditor
   \<and> events failedEditor
       = events importedEditor @ [ImportSchemaCalled, OnImport (Some importError)]
   \<and> error_warnings importError = Some [''unknown field'']
   \<and> tab_calls (tab_onImport (OnImport (Some importError)) formTab)
       = [ShowImportErrorDialog importError, TabOnError importError]
   \<and> tab_calls (tab_handleImport (Some importError) (error_warnings importError) formTab)
       = [TabOnWarning ''unknown field'', ShowImportErrorDialog importError,
          TabOnError importError]"
proof -
  have run: "failedEditor =
     importSchema parseDocument formImport
       (importedEditor\<lparr>props := \<lparr>xml = Str ''[]''\<rparr>\<rparr>)"
    by (simp only: failedEditor_def)
  have path: "parseDocument (Str ''[]'') = Inr JEmptyArray"
    "formImport JEmptyArray (form (cached importedEditor))
       = (Rejected importError, form (cached importedEditor))"
    by (simp_all add: parseDocument_eval formImport_eval)
  have before: "lastSchema (cached importedEditor) = cloudDocument"
    "engineProfile (cached importedEditor)
       = Some \<lparr>executionPlatform = Str ''Camunda Cloud'',
               executionPlatformVersion = Str ''1.1''\<rparr>"
    by (simp_all add: importedEditor_eval)
  have after: "lastSchema (cached failedEditor) = Null"
    "engineProfile (cached failedEditor) = None" "\<not> importing failedEditor"
    "events failedEditor
       = events importedEditor @ [ImportSchemaCalled, OnImport (Some importError)]"
    by (simp_all add: failedEditor_eval importedEditor_eval)
  have w: "error_warnings importError = Some [''unknown field'']"
    by (simp add: importError_def)
  have c: "tab_calls (formTab :: FormEditor MultiSheetTab) = []"
    by (simp add: formTab_def newMultiSheetTab_def)
  have f: "tab_calls (openFallback (st :: FormEditor MultiSheetTab)) = tab_calls st" for st
    by (simp add: openFallback_def Let_def split: option.splits)
  have t1: "tab_calls (tab_onImport (OnImport (Some importError)) formTab)
       = [ShowImportErrorDialog importError, TabOnError importError]"
    by (simp add: tab_onImport_def tab_handleImport_def Let_def f c)
  have t2: "tab_calls (tab_handleImport (Some importError) (error_warnings importError) formTab)
       = [TabOnWarning ''unknown field'', ShowImportErrorDialog importError,
          TabOnError importError]"
    by (simp add: w tab_handleImport_def Let_def f c)
  from run path before after w t1 t2 show ?thesis by blast
qed

text \<open>
  C6, as amended. When an import has succeeded (\<open>handleImport\<close> receives no error), the
  cached \<open>lastSchema\<close> becomes the \<open>xml\<close> prop the component has at that moment, the
  cached baseline becomes the command stack's current position, and the cached engine
  profile is the pair of \<open>executionPlatform\<close> and \<open>executionPlatformVersion\<close> of the
  schema the form holds exactly when its \<open>executionPlatform\<close> is not \<open>undefined\<close>, and
  \<open>null\<close> otherwise. This holds in whatever state the suspended \<open>importSchema\<close> is
  resumed on a mounted component, so also when the prop was replaced while the import
  was in flight. When the import ran undisturbed, the prop is the document that was
  parsed and imported, and that document is cached.
\<close>

theorem import_success_updates_cache:
  "cached (handleImport None warnings st) =
     (cached st)
       \<lparr>engineProfile :=
          (if executionPlatform (getSchema (form (cached st))) \<noteq> Undefined
           then Some \<lparr>executionPlatform = executionPlatform (getSchema (form (cached st))),
                       executionPlatformVersion =
                         executionPlatformVersion (getSchema (form (cached st)))\<rparr>
           else None),
        lastSchema := xml (props st),
        stackIdx := cs_stackIdx (commandStack (form (cached st)))\<rparr>
   \<and> (engineProfile (cached (handleImport None warnings st)) = None)
       = (executionPlatform (getSchema (form (cached st))) = Undefined)
   \<and> (isMounted st \<longrightarrow>
        form_importSchema j (form (cached st)) = (Resolved None warnings, f') \<longrightarrow>
          cached (resume_import form_importSchema j st) =
            \<lparr>engineProfile =
               (if executionPlatform (getSchema f') \<noteq> Undefined
                then Some \<lparr>executionPlatform = executionPlatform (getSchema f'),
                            executionPlatformVersion = executionPlatformVersion (getSchema f')\<rparr>
                else None),
             form = f',
             lastSchema = xml (props st),
             stackIdx = cs_stackIdx (commandStack f')\<rparr>)
   \<and> (isMounted st \<longrightarrow> JSON_parse (xml (props st)) = Inr j \<longrightarrow>
        form_importSchema j (form (cached st)) = (Resolved None warnings, f') \<longrightarrow>
          cached (importSchema JSON_parse form_importSchema st) =
            \<lparr>engineProfile =
               (if executionPlatform (getSchema f') \<noteq> Undefined
                then Some \<lparr>executionPlatform = executionPlatform (getSchema f'),
                            executionPlatformVersion = executionPlatformVersion (getSchema f')\<rparr>
                else None),
             form = f',
             lastSchema = xml (props st),
             stackIdx = cs_stackIdx (commandStack f')\<rparr>)"
  by (simp add: handleImport_no_error importSchema_resolved resume_import_def
      importSchema_resume_def importSchema_finish_def)

text \<open>
  The import of a document with a platform on the mounted editor, undisturbed; the same
  import resumed after the \<open>xml\<close> prop was replaced by \<open>{}\<close>; and \<open>handleImport\<close> on a
  form whose schema names no platform.
\<close>

theorem import_success_updates_cache_witness:
  "isMounted mountedEditor
   \<and> parseDocument (xml (props mountedEditor)) = Inr (JObject cloudSchema)
   \<and> formImport (JObject cloudSchema) (form (cached mountedEditor))
       = (Resolved None (Some []), cloudForm)
   \<and> cached (importSchema parseDocument formImport mountedEditor) =
       \<lparr>engineProfile = Some \<lparr>executionPlatform = Str ''Camunda Cloud'',
                               executionPlatformVersion = Str ''1.1''\<rparr>,
        form = cloudForm,
        lastSchema = cloudDocument,
        stackIdx = - 1\<rparr>
   \<and> isMounted (importingEditor\<lparr>props := \<lparr>xml = Str ''{}''\<rparr>\<rparr>)
   \<and> formImport (JObject cloudSchema)
        (form (cached (importingEditor\<lparr>props := \<lparr>xml = Str ''{}''\<rparr>\<rparr>)))
       = (Resolved None (Some []), cloudForm)
   \<and> cached (resume_import formImport (JObject cloudSchema)
               (importingEditor\<lparr>props := \<lparr>xml = Str ''{}''\<rparr>\<rparr>)) =
       \<lparr>engineProfile = Some \<lparr>executionPlatform = Str ''Camunda Cloud'',
                               executionPlatformVersion = Str ''1.1''\<rparr>,
        form = cloudForm,
        lastSchema = Str ''{}'',
        stackIdx = - 1\<rparr>
   \<and> engineProfile (cached (handleImport None None mountedEditor)) = None"
proof -
  have m: "isMounted mountedEditor"
    and p: "parseDocument (xml (props mountedEditor)) = Inr (JObject cloudSchema)"
    and o: "formImport (JObject cloudSchema) (form (cached mountedEditor))
             = (Resolved None (Some []), cloudForm)"
    by (simp_all add: mountedEditor_eval parseDocument_eval formImport_eval)
  have m': "isMounted (importingEditor\<lparr>props := \<lparr>xml = Str ''{}''\<rparr>\<rparr>)"
    and o': "formImport (JObject cloudSchema)
               (form (cached (importingEditor\<lparr>props := \<lparr>xml = Str ''{}''\<rparr>\<rparr>)))
             = (Resolved None (Some []), cloudForm)"
    by (simp_all add: importingEditor_eval formImport_eval)
  have plat: "executionPlatform (getSchema cloudForm) = Str ''Camunda Cloud''"
    "executionPlatformVersion (getSchema cloudForm) = Str ''1.1''"
    "cs_stackIdx (commandStack cloudForm) = - 1"
    by (simp_all add: cloudForm_def cloudSchema_def)
  have doc: "xml (props mountedEditor) = cloudDocument"
    by (simp add: mountedEditor_eval)
  note undisturbed =
    import_success_updates_cache
      [where st = mountedEditor and JSON_parse = parseDocument
         and j = "JObject cloudSchema" and form_importSchema = formImport
         and warnings = "Some []" and f' = cloudForm,
       THEN conjunct2, THEN conjunct2, THEN conjunct2, rule_format, OF m p o]
  have a: "cached (importSchema parseDocument formImport mountedEditor) =
       \<lparr>engineProfile = Some \<lparr>executionPlatform = Str ''Camunda Cloud'',
                               executionPlatformVersion = Str ''1.1''\<rparr>,
        form = cloudForm,
        lastSchema = cloudDocument,
        stackIdx = - 1\<rparr>"
    by (simp only: undisturbed plat doc) simp
  note replaced =
    import_success_updates_cache
      [where st = "importingEditor\<lparr>props := \<lparr>xml = Str ''{}''\<rparr>\<rparr>"
         and j = "JObject cloudSchema" and form_importSchema = formImport
         and warnings = "Some []" and f' = cloudForm,
       THEN conjunct2, THEN conjunct2, THEN conjunct1, rule_format, OF m' o']
  have doc': "xml (props (importingEditor\<lparr>props := \<lparr>xml = Str ''{}''\<rparr>\<rparr>)) = Str ''{}''"
    by simp
  have b: "cached (resume_import formImport (JObject cloudSchema)
               (importingEditor\<lparr>props := \<lparr>xml = Str ''{}''\<rparr>\<rparr>)) =
       \<lparr>engineProfile = Some \<lparr>executionPlatform = Str ''Camunda Cloud'',
                               executionPlatformVersion = Str ''1.1''\<rparr>,
        form = cloudForm,
        lastSchema = Str ''{}'',
        stackIdx = - 1\<rparr>"
    by (simp only: replaced plat doc') simp
  note noplatform =
    import_success_updates_cache
      [where st = mountedEditor and warnings = None, THEN conjunct2, THEN conjunct1]
  have "executionPlatform (getSchema (form (cached mountedEditor))) = Undefined"
    by (simp add: mountedEditor_eval freshForm_def emptySchema_def)
  with noplatform
  have c: "engineProfile (cached (handleImport None None mountedEditor)) = None"
    by (simp only:)
  show ?thesis
    by (intro conjI m p o a m' o' b c)
qed

text \<open>
  The claim as it is stated fails when the \<open>xml\<close> prop is replaced while the import is
  in flight. The mounted editor starts to import its document, which names Camunda
  Cloud. Before the engine is done the document \<open>{}\<close> arrives as the new prop; an
  import is in flight, so none is started for it. The engine then succeeds: the form
  holds the first document, one import was made and reported, and the cached
  \<open>lastSchema\<close> is \<open>{}\<close>, which was never imported. The render that follows starts no
  import either.
\<close>

theorem import_caches_replaced_prop_counterexample:
  "checkImport parseDocument None mountedEditor
     = AwaitImport (JObject cloudSchema) importingEditor
   \<and> xml (props importingEditor) = cloudDocument
   \<and> updateProps parseDocument \<lparr>xml = Str ''{}''\<rparr> importingEditor
       = Settled (importingEditor\<lparr>props := \<lparr>xml = Str ''{}''\<rparr>\<rparr>)
   \<and> formImport (JObject cloudSchema) (form (cached importingEditor))
       = (Resolved None (Some []), cloudForm)
   \<and> overtakenEditor
       = resume_import formImport (JObject cloudSchema)
           (importingEditor\<lparr>props := \<lparr>xml = Str ''{}''\<rparr>\<rparr>)
   \<and> events overtakenEditor = [ImportSchemaCalled, OnImport None]
   \<and> getSchema (form (cached overtakenEditor)) = cloudSchema
   \<and> lastSchema (cached overtakenEditor) = Str ''{}''
   \<and> lastSchema (cached overtakenEditor) \<noteq> cloudDocument
   \<and> updateProps parseDocument (props overtakenEditor) overtakenEditor
       = Settled overtakenEditor"
proof -
  have start: "checkImport parseDocument None mountedEditor
                 = AwaitImport (JObject cloudSchema) importingEditor"
    by (simp add: importingEditor_eval)
       (simp add: checkImport_def isImportNeeded_def Let_def importSchema_start_def
          parseDocument_eval documents_differ mountedEditor_eval)
  have doc: "xml (props importingEditor) = cloudDocument"
    by (simp add: importingEditor_eval)
  have upd: "updateProps parseDocument \<lparr>xml = Str ''{}''\<rparr> importingEditor
               = Settled (importingEditor\<lparr>props := \<lparr>xml = Str ''{}''\<rparr>\<rparr>)"
    by (simp add: updateProps_def componentDidUpdate_def checkImport_def isImportNeeded_def
        importingEditor_eval)
  have eng: "formImport (JObject cloudSchema) (form (cached importingEditor))
               = (Resolved None (Some []), cloudForm)"
    by (simp add: formImport_eval)
  have res: "overtakenEditor
               = resume_import formImport (JObject cloudSchema)
                   (importingEditor\<lparr>props := \<lparr>xml = Str ''{}''\<rparr>\<rparr>)"
    by (simp add: overtakenEditor_def upd suspended_state_def)
  have out: "events overtakenEditor = [ImportSchemaCalled, OnImport None]"
    "getSchema (form (cached overtakenEditor)) = cloudSchema"
    "lastSchema (cached overtakenEditor) = Str ''{}''"
    "lastSchema (cached overtakenEditor) \<noteq> cloudDocument"
    by (simp_all add: overtakenEditor_eval cloudForm_def documents_differ)
  have again: "updateProps parseDocument (props overtakenEditor) overtakenEditor
                 = Settled overtakenEditor"
    by (simp add: updateProps_def componentDidUpdate_def checkImport_def isImportNeeded_def
        overtakenEditor_eval)
  from start doc upd eng res out again show ?thesis by blast
qed

text \<open>
  C7. Right after a successful import the form editor is not dirty. From then on, with
  the cache as the import left it, it is dirty exactly when the form's command stack is
  at another position than at the import, whatever has been done to the form. So also
  at the end of an import that runs undisturbed on a mounted editor.
\<close>

theorem not_dirty_after_successful_import:
  "\<not> isDirty (handleImport None warnings st)
   \<and> isDirty ((handleImport None warnings st)
                \<lparr>cached := (cached (handleImport None warnings st))\<lparr>form := f''\<rparr>\<rparr>)
       = (cs_stackIdx (commandStack f'') \<noteq> cs_stackIdx (commandStack (form (cached st))))
   \<and> (isMounted st \<longrightarrow> JSON_parse (xml (props st)) = Inr j \<longrightarrow>
        form_importSchema j (form (cached st)) = (Resolved None warnings, f') \<longrightarrow>
          \<not> isDirty (importSchema JSON_parse form_importSchema st))"
  by (simp add: handleImport_no_error importSchema_resolved isDirty_def)

theorem not_dirty_after_successful_import_witness:
  "isMounted mountedEditor
   \<and> parseDocument (xml (props mountedEditor)) = Inr (JObject cloudSchema)
   \<and> formImport (JObject cloudSchema) (form (cached mountedEditor))
       = (Resolved None (Some []), cloudForm)
   \<and> \<not> isDirty (importSchema parseDocument formImport mountedEditor)
   \<and> isDirty ((handleImport None None mountedEditor)
                \<lparr>cached := (cached (handleImport None None mountedEditor))
                             \<lparr>form := executeCommand freshForm\<rparr>\<rparr>)"
proof -
  have m: "isMounted mountedEditor"
    and p: "parseDocument (xml (props mountedEditor)) = Inr (JObject cloudSchema)"
    and o: "formImport (JObject cloudSchema) (form (cached mountedEditor))
             = (Resolved None (Some []), cloudForm)"
    by (simp_all add: mountedEditor_eval parseDocument_eval formImport_eval)
  note a =
    not_dirty_after_successful_import
      [where st = mountedEditor and JSON_parse = parseDocument
         and j = "JObject cloudSchema" and form_importSchema = formImport
         and warnings = "Some []" and f' = cloudForm,
       THEN conjunct2, THEN conjunct2, rule_format, OF m p o]
  note b =
    not_dirty_after_successful_import
      [where st = mountedEditor and warnings = None
         and f'' = "executeCommand freshForm",
       THEN conjunct2, THEN conjunct1]
  have ne: "cs_stackIdx (commandStack (executeCommand freshForm))
               \<noteq> cs_stackIdx (commandStack (form (cached mountedEditor)))"
    by (simp add: executeCommand_def freshForm_def mountedEditor_eval)
  have d: "isDirty ((handleImport None None mountedEditor)
                \<lparr>cached := (cached (handleImport None None mountedEditor))
                             \<lparr>form := executeCommand freshForm\<rparr>\<rparr>)"
    by (rule b [THEN iffD2, OF ne])
  show ?thesis
    by (intro conjI m p o a d)
qed

subsection \<open>Export\<close>

text \<open>
  C10. \<open>getXML\<close> on an editor that is not dirty returns the cached \<open>lastSchema\<close>, or the
  \<open>xml\<close> prop when no \<open>lastSchema\<close> is cached (it is \<open>null\<close>, or empty), and changes
  nothing: the form is not serialised and the cache stays as it is. On a dirty editor it
  serialises the form once, returns the result and caches it as \<open>lastSchema\<close> together
  with the command stack's position as the baseline, and the editor is not dirty right
  afterwards.
\<close>

theorem getXML_cached_or_serialised:
  "(\<not> isDirty st \<longrightarrow>
      getXML JSON_stringify st = (js_or (lastSchema (cached st)) (xml (props st)), st)
      \<and> (truthy (lastSchema (cached st)) \<longrightarrow>
           fst (getXML JSON_stringify st) = lastSchema (cached st))
      \<and> (\<not> truthy (lastSchema (cached st)) \<longrightarrow>
           fst (getXML JSON_stringify st) = xml (props st)))
   \<and> (isDirty st \<longrightarrow>
        getXML JSON_stringify st =
          (JSON_stringify (saveSchema (form (cached st))),
           st\<lparr>cached := (cached st)
                  \<lparr>lastSchema := JSON_stringify (saveSchema (form (cached st))),
                   stackIdx := cs_stackIdx (commandStack (form (cached st)))\<rparr>,
              events := events st @ [SaveSchemaCalled]\<rparr>))
   \<and> \<not> isDirty (snd (getXML JSON_stringify st))"
  by (simp add: getXML_def Let_def js_or_def isDirty_def)

text \<open>
  On the editor that imported its document, on the editor that has imported nothing, and
  on the editor whose form was edited after the import.
\<close>

theorem getXML_cached_or_serialised_witness:
  "\<not> isDirty importedEditor
   \<and> truthy (lastSchema (cached importedEditor))
   \<and> getXML stringifySchema importedEditor = (cloudDocument, importedEditor)
   \<and> \<not> isDirty mountedEditor
   \<and> \<not> truthy (lastSchema (cached mountedEditor))
   \<and> getXML stringifySchema (mountedEditor\<lparr>props := \<lparr>xml = Str ''{}''\<rparr>\<rparr>)
       = (Str ''{}'', mountedEditor\<lparr>props := \<lparr>xml = Str ''{}''\<rparr>\<rparr>)
   \<and> isDirty editedEditor
   \<and> fst (getXML stringifySchema editedEditor) = cloudSerialised
   \<and> stackIdx (cached (snd (getXML stringifySchema editedEditor))) = 0
   \<and> \<not> isDirty (snd (getXML stringifySchema editedEditor))"
  using getXML_cached_or_serialised [of importedEditor stringifySchema]
        getXML_cached_or_serialised
          [of "mountedEditor\<lparr>props := \<lparr>xml = Str ''{}''\<rparr>\<rparr>" stringifySchema]
        getXML_cached_or_serialised [of editedEditor stringifySchema]
  by (simp add: editedEditor_def importedEditor_eval mountedEditor_eval isDirty_def
      executeCommand_def stringifySchema_def cloudForm_def freshForm_def
      js_or_def documents_differ)

section \<open>Properties of the engine profile selector\<close>

text \<open>
  C9. Equality of two engine profiles, as the selector uses it, is structural:
  \<open>engineProfilesEqual\<close> holds of two profiles exactly when their platforms are equal and
  their versions are equal, which for a profile is equality of the two profiles. It is
  therefore reflexive on profiles, and symmetric on all arguments, \<open>null\<close> included.
\<close>

theorem engineProfilesEqual_structural:
  "(engineProfilesEqual (Some a) (Some b) =
      (executionPlatform a = executionPlatform b
       \<and> executionPlatformVersion a = executionPlatformVersion b))
   \<and> (engineProfilesEqual (Some a) (Some b) = (a = b))
   \<and> engineProfilesEqual (Some a) (Some a)
   \<and> (engineProfilesEqual x y = engineProfilesEqual y x)"
  by (auto simp: engineProfilesEqual_def split: option.splits)

text \<open>
  C8. Apply with no staged selection: the only change is that the validation error is
  raised. \<open>props.setEngineProfile\<close> and \<open>onClose\<close> are not called (no call is added), so
  the profile set before stays and the overlay stays open.
\<close>

theorem setEngineProfile_no_selection:
  "selectedEngineProfile st = None \<Longrightarrow>
     setEngineProfile st = st\<lparr>selection_error := True\<rparr>
     \<and> selection_error (setEngineProfile st)
     \<and> calls (setEngineProfile st) = calls st
     \<and> engineProfile_prop (setEngineProfile st) = engineProfile_prop st
     \<and> selectedEngineProfile (setEngineProfile st) = None"
  by (simp add: setEngineProfile_def)

theorem setEngineProfile_no_selection_witness:
  "selectedEngineProfile (initSelection None) = None
   \<and> setEngineProfile (initSelection None) = (initSelection None)\<lparr>selection_error := True\<rparr>
   \<and> selection_error (setEngineProfile (initSelection None))
   \<and> calls (setEngineProfile (initSelection None)) = []"
  using setEngineProfile_no_selection [of "initSelection None"]
  by (simp add: initSelection_def)

end
